theory Spec2Isabelle
  imports Complex_Main
begin

section \<open>Text\<close>

text \<open>
  Python strings are modelled as \<open>string\<close> over ASCII text: \<open>lower\<close> maps the
  letters A to Z to a to z and leaves every other character alone, which is what
  \<^verbatim>\<open>str.lower\<close> does on ASCII input.
\<close>

definition ascii_uppercase :: string where
  "ascii_uppercase = ''ABCDEFGHIJKLMNOPQRSTUVWXYZ''"

definition ascii_lowercase :: string where
  "ascii_lowercase = ''abcdefghijklmnopqrstuvwxyz''"

definition lower_char :: "char \<Rightarrow> char" where
  "lower_char c = (case map_of (zip ascii_uppercase ascii_lowercase) c of Some d \<Rightarrow> d | None \<Rightarrow> c)"

definition lower :: "string \<Rightarrow> string" where
  "lower s = map lower_char s"

text \<open>\<^verbatim>\<open>s.startswith(p)\<close>, \<^verbatim>\<open>p in s\<close> and \<^verbatim>\<open>s.endswith(p)\<close>.\<close>

fun startswith :: "string \<Rightarrow> string \<Rightarrow> bool" where
  "startswith s [] = True"
| "startswith [] (p # ps) = False"
| "startswith (c # cs) (p # ps) = (c = p \<and> startswith cs ps)"

fun contains :: "string \<Rightarrow> string \<Rightarrow> bool" where
  "contains p [] = (p = [])"
| "contains p (c # cs) = (startswith (c # cs) p \<or> contains p cs)"

definition endswith :: "string \<Rightarrow> string \<Rightarrow> bool" where
  "endswith s p = startswith (rev s) (rev p)"

text \<open>\<^verbatim>\<open>any(keyword in content for keyword in keywords)\<close>.\<close>

definition any_in :: "string list \<Rightarrow> string \<Rightarrow> bool" where
  "any_in keywords content = list_ex (\<lambda>keyword. contains keyword content) keywords"

text \<open>\<^verbatim>\<open>s.strip(c)\<close> for a single character, \<^verbatim>\<open>s.split(c)\<close> and \<^verbatim>\<open>sep.join(xs)\<close>.\<close>

definition strip :: "char \<Rightarrow> string \<Rightarrow> string" where
  "strip c s = rev (dropWhile (\<lambda>x. x = c) (rev (dropWhile (\<lambda>x. x = c) s)))"

fun split :: "char \<Rightarrow> string \<Rightarrow> string list" where
  "split c [] = [[]]"
| "split c (x # xs) =
     (if x = c then [] # split c xs
      else (case split c xs of [] \<Rightarrow> [[x]] | w # ws \<Rightarrow> (x # w) # ws))"

fun join :: "string \<Rightarrow> string list \<Rightarrow> string" where
  "join sep [] = []"
| "join sep [x] = x"
| "join sep (x # y # ys) = x @ sep @ join sep (y # ys)"

text \<open>\<^verbatim>\<open>str(n)\<close> for integers and booleans, as the f-strings of the source print them.\<close>

fun str_nat :: "nat \<Rightarrow> string" where
  "str_nat n = (if n < 10 then [''0123456789'' ! n]
                else str_nat (n div 10) @ [''0123456789'' ! (n mod 10)])"

declare str_nat.simps [simp del]

definition str_int :: "int \<Rightarrow> string" where
  "str_int i = (if i < 0 then ''-'' @ str_nat (nat (- i)) else str_nat (nat i))"

definition str_bool :: "bool \<Rightarrow> string" where
  "str_bool b = (if b then ''True'' else ''False'')"

section \<open>Exceptions and the outside world\<close>

text \<open>
  An exception is either the hosting client's \<^verbatim>\<open>GithubException\<close>, with its status
  and its rendering, or any other \<^verbatim>\<open>Exception\<close>, with its type name and its rendering.
  A call that leaves the program returns \<open>Inl\<close> of the exception it raises.
\<close>

datatype exn = GithubException int string | OtherException string string

fun exn_type_name :: "exn \<Rightarrow> string" where
  "exn_type_name (GithubException status msg) = ''GithubException''"
| "exn_type_name (OtherException tname msg) = tname"

fun exn_str :: "exn \<Rightarrow> string" where
  "exn_str (GithubException status msg) = msg"
| "exn_str (OtherException tname msg) = msg"

text \<open>The six components \<^verbatim>\<open>urlparse\<close> returns; the checker reads two of them.\<close>

record parsed_url =
  scheme :: string
  netloc :: string
  path :: string
  params :: string
  query :: string
  fragment :: string

text \<open>An entry of a repository listing, with the outcome of decoding its content as UTF-8.\<close>

record content_file =
  cf_type :: string
  cf_name :: string
  cf_text :: "exn + string"

text \<open>\<^verbatim>\<open>get_contents\<close> returns one entry for a file path and a list for a directory.\<close>

datatype contents = ContentFile content_file | ContentList "content_file list"

text \<open>
  A timestamp of the hosting client: its instant in microseconds, whether it carries a
  time zone, and the two renderings the source prints
  (\<^verbatim>\<open>strftime('%Y-%m-%d')\<close> and \<^verbatim>\<open>str\<close>).
\<close>

record datetime =
  dt_instant :: int
  dt_aware :: bool
  dt_ymd :: string
  dt_str :: string

text \<open>
  The resolved repository object. Attribute reads are values; method calls and the
  \<^verbatim>\<open>totalCount\<close> of a paginated list go to the network and may raise. The repository is
  a snapshot: the same call gives the same outcome every time during one run.
\<close>

record repo =
  get_readme :: "exn + content_file"
  get_license :: "exn + content_file option"
  license :: "string option"
  open_issues_count :: int
  updated_at :: "datetime option"
  pushed_at :: "datetime option"
  has_wiki :: bool
  has_discussions :: bool
  get_contents :: "string \<Rightarrow> exn + contents"
  get_commits :: "exn + string list"
  milestones_totalCount :: "exn + int"
  collaborators_totalCount :: "exn + int"
  releases_totalCount :: "exn + int"
  tags_totalCount :: "exn + int"

text \<open>
  Everything outside the class: the URL parser, the hosting client
  (\<^verbatim>\<open>github_client.get_repo\<close>), the page fetch (\<^verbatim>\<open>requests.get(...).text\<close>), the text
  extraction (\<^verbatim>\<open>BeautifulSoup(...).get_text()\<close>) and the clock
  (\<^verbatim>\<open>datetime.datetime.now()\<close>, naive, in microseconds).
\<close>

record world =
  urlparse :: "string \<Rightarrow> exn + parsed_url"
  get_repo :: "string \<Rightarrow> exn + repo"
  requests_get :: "string \<Rightarrow> exn + string"
  soup_get_text :: "string \<Rightarrow> exn + string"
  now :: int

section \<open>The report and the checker\<close>

record check =
  name :: string
  passed :: bool
  points :: int
  max_points :: int
  details :: string
  how_to_fix :: string

record category =
  checks :: "check list"
  cat_score :: int
  cat_max_score :: int

text \<open>
  The results dictionary. Its \<open>categories\<close> are an insertion-ordered dictionary, here a
  list of pairs with distinct keys in insertion order; \<open>error\<close> and \<open>note\<close> are keys that
  may be absent. The percentage is a Python float; the model keeps the exact rational
  number that the float expression denotes.
\<close>

record report =
  url :: string
  score :: int
  max_score :: int
  percentage :: rat
  categories :: "(string \<times> category) list"
  error :: "string option"
  "note" :: "string option"

record checker =
  github_token :: "string option"
  results :: report
  self_max_score :: int
  current_score :: int

text \<open>
  \<^verbatim>\<open>__init__\<close>. The source starts \<open>results\<close> as the empty dictionary; nothing reads it
  before \<open>check_compliance\<close> replaces it, so the model starts from empty fields.
\<close>

definition init :: "string option \<Rightarrow> checker" where
  "init token =
     \<lparr>github_token = token,
      results = \<lparr>url = [], score = 0, max_score = 0, percentage = 0, categories = [],
                 error = None, note = None\<rparr>,
      self_max_score = 100,
      current_score = 0\<rparr>"

text \<open>\<open>d[k] = f(d[k])\<close> on the insertion-ordered dictionary.\<close>

fun modify :: "string \<Rightarrow> (category \<Rightarrow> category) \<Rightarrow> (string \<times> category) list \<Rightarrow> (string \<times> category) list" where
  "modify k f [] = []"
| "modify k f ((k', v) # kvs) = (if k' = k then (k', f v) # kvs else (k', v) # modify k f kvs)"

text \<open>
  \<^verbatim>\<open>_add_check(category, name, passed, points=1, details="", how_to_fix="")\<close>. The call
  sites that leave \<open>details\<close> or \<open>how_to_fix\<close> out pass the empty string here.
\<close>

definition add_check :: "string \<Rightarrow> string \<Rightarrow> bool \<Rightarrow> int \<Rightarrow> string \<Rightarrow> string \<Rightarrow> checker \<Rightarrow> checker" where
  "add_check category a_name a_passed a_points a_details a_how_to_fix st =
     (let cats0 = categories (results st);
          cats1 = (if map_of cats0 category = None
                   then cats0 @ [(category, \<lparr>checks = [], cat_score = 0, cat_max_score = 0\<rparr>)]
                   else cats0);
          cats2 = (if a_passed
                   then modify category (\<lambda>c. c\<lparr>cat_score := cat_score c + a_points\<rparr>) cats1
                   else cats1);
          cur = (if a_passed then current_score st + a_points else current_score st);
          cats3 = modify category (\<lambda>c. c\<lparr>cat_max_score := cat_max_score c + a_points\<rparr>) cats2;
          cats4 = modify category (\<lambda>c. c\<lparr>checks := checks c @
                    [\<lparr>name = a_name,
                      passed = a_passed,
                      points = (if a_passed then a_points else 0),
                      max_points = a_points,
                      details = a_details,
                      how_to_fix = (if \<not> a_passed then a_how_to_fix else [])\<rparr>]\<rparr>) cats3
      in st\<lparr>results := (results st)\<lparr>categories := cats4\<rparr>, current_score := cur\<rparr>)"

definition set_error :: "string \<Rightarrow> checker \<Rightarrow> checker" where
  "set_error msg st = st\<lparr>results := (results st)\<lparr>error := Some msg\<rparr>\<rparr>"

definition set_note :: "string \<Rightarrow> checker \<Rightarrow> checker" where
  "set_note msg st = st\<lparr>results := (results st)\<lparr>note := Some msg\<rparr>\<rparr>"

section \<open>Statements that may raise\<close>

text \<open>
  A block of the source is a \<open>step\<close>: it runs on the checker and either completes or
  raises, and in both cases leaves the checker as it is at that moment.
\<close>

type_synonym step = "checker \<Rightarrow> exn option \<times> checker"

definition stmt :: "(checker \<Rightarrow> checker) \<Rightarrow> step" where
  "stmt f st = (None, f st)"

definition call :: "exn + 'a \<Rightarrow> ('a \<Rightarrow> step) \<Rightarrow> step" where
  "call x k st = (case x of Inl e \<Rightarrow> (Some e, st) | Inr v \<Rightarrow> k v st)"

definition try_except_as :: "step \<Rightarrow> (exn \<Rightarrow> step) \<Rightarrow> step" where
  "try_except_as body handler st =
     (case body st of (Some e, st') \<Rightarrow> handler e st' | (None, st') \<Rightarrow> (None, st'))"

definition try_except :: "step \<Rightarrow> step \<Rightarrow> step" where
  "try_except body handler = try_except_as body (\<lambda>e. handler)"

fun seq :: "step list \<Rightarrow> step" where
  "seq [] st = (None, st)"
| "seq (f # fs) st = (case f st of (Some e, st') \<Rightarrow> (Some e, st') | (None, st') \<Rightarrow> seq fs st')"

text \<open>\<^verbatim>\<open>a or b\<close> where only \<open>b\<close> may raise, and a pure function applied to an outcome.\<close>

definition or_else :: "bool \<Rightarrow> exn + bool \<Rightarrow> exn + bool" where
  "or_else a b = (if a then Inr True else b)"

definition on_value :: "('a \<Rightarrow> 'b) \<Rightarrow> exn + 'a \<Rightarrow> exn + 'b" where
  "on_value f x = (case x of Inl e \<Rightarrow> Inl e | Inr v \<Rightarrow> Inr (f v))"

section \<open>Helper methods\<close>

definition check_file_exists :: "repo \<Rightarrow> string \<Rightarrow> bool" where
  "check_file_exists repo filepath = (case get_contents repo filepath of Inr c \<Rightarrow> True | Inl e \<Rightarrow> False)"

definition check_directory_exists :: "repo \<Rightarrow> string \<Rightarrow> bool" where
  "check_directory_exists repo dirpath = (case get_contents repo dirpath of Inr c \<Rightarrow> True | Inl e \<Rightarrow> False)"

text \<open>Iterating over or slicing a single entry raises \<^verbatim>\<open>TypeError\<close>.\<close>

fun entries :: "contents \<Rightarrow> exn + content_file list" where
  "entries (ContentList items) = Inr items"
| "entries (ContentFile f) = Inl (OtherException ''TypeError'' ''ContentFile object is not a sequence'')"

definition source_extensions :: "string list" where
  "source_extensions = [''.py'', ''.js'', ''.java'', ''.go'', ''.rs'']"

text \<open>The loop of \<^verbatim>\<open>_check_code_comments\<close> over the entries it was given.\<close>

fun scan_comments :: "content_file list \<Rightarrow> exn + bool" where
  "scan_comments [] = Inr False"
| "scan_comments (item # rest) =
     (if cf_type item = ''file'' \<and> list_ex (\<lambda>ext. endswith (cf_name item) ext) source_extensions
      then (case cf_text item of
              Inl e \<Rightarrow> Inl e
            | Inr file_content \<Rightarrow>
                if contains ''#'' file_content \<or> contains ''//'' file_content \<or> contains ''/*'' file_content
                then Inr True
                else scan_comments rest)
      else scan_comments rest)"

definition check_code_comments :: "repo \<Rightarrow> bool" where
  "check_code_comments repo =
     (case get_contents repo [] of
        Inl e \<Rightarrow> False
      | Inr cs \<Rightarrow>
          (case entries cs of
             Inl e \<Rightarrow> False
           | Inr items \<Rightarrow> (case scan_comments (take 5 items) of Inl e \<Rightarrow> False | Inr b \<Rightarrow> b)))"

definition check_no_secrets :: "repo \<Rightarrow> bool" where
  "check_no_secrets repo =
     (let sensitive_patterns = [''password'', ''api_key'', ''secret_key'', ''private_key'']
      in True)"

section \<open>The rule catalogue\<close>

definition check_general_compliance :: "repo \<Rightarrow> string \<Rightarrow> step" where
  "check_general_compliance repo owner =
     (let category = ''General Compliance & Governance'' in
      seq [
        try_except
          (call (get_readme repo) (\<lambda>readme. call (cf_text readme) (\<lambda>text.
             let readme_content = lower text;
                 has_goal = any_in [''goal'', ''purpose'', ''about'', ''overview'', ''description''] readme_content
             in stmt (add_check category ''Clearly defined project goal and scope'' has_goal 1
                  ''Checked README for keywords: goal, purpose, about, overview, description''
                  ''Add a clear project description in your README.md file. Include sections like '## About', '## Purpose', or '## Project Goal' to explain what your project does.''))))
          (stmt (add_check category ''Clearly defined project goal and scope'' False 1
                  ''README.md file not found or could not be read''
                  ''Create a README.md file in the root of your repository with a clear project description and goals.'')),
        call (get_license repo) (\<lambda>lic.
          let license_check = (lic \<noteq> None)
          in stmt (add_check category ''Open-source license file present'' license_check 1
               (''License: '' @ (case license repo of Some license_name \<Rightarrow> license_name | None \<Rightarrow> ''Not found''))
               ''Add a LICENSE file to your repository. Popular choices include MIT, Apache 2.0, or GPL. Use GitHub's 'Add file > Create new file > LICENSE' wizard to add one.'')),
        (let has_readme = (case get_readme repo of Inr readme \<Rightarrow> True | Inl e \<Rightarrow> False)
         in stmt (add_check category ''README file provides project overview'' has_readme 1
              ''Checked for README.md, README.rst, or README.txt in repository root''
              ''Create a README.md file in the root directory with project overview, installation instructions, and usage examples.'')),
        (let is_owasp = (lower owner = ''owasp'')
         in stmt (add_check category ''Under OWASP organization'' is_owasp 1
              (''Repository owner: '' @ owner)
              ''This check verifies if the repository is under the OWASP GitHub organization. Consider contributing to OWASP or following OWASP guidelines even if not under OWASP org.'')),
        (let has_contributing = check_file_exists repo ''CONTRIBUTING.md''
         in stmt (add_check category ''Contribution guidelines (CONTRIBUTING.md)'' has_contributing 1
              ''Checked for CONTRIBUTING.md file in repository root''
              ''Create a CONTRIBUTING.md file that explains how others can contribute to your project. Include guidelines for submitting issues, pull requests, and code style standards.'')),
        (let open_issues = open_issues_count repo;
             has_recent_activity = (updated_at repo \<noteq> None)
         in stmt (add_check category ''Issue tracker is active'' has_recent_activity 1
              (''Open issues: '' @ str_int open_issues @ '', Last updated: '' @
                 (case updated_at repo of Some d \<Rightarrow> dt_ymd d | None \<Rightarrow> ''Unknown''))
              ''Enable the Issues feature in your repository settings and actively respond to and manage issues.'')),
        try_except
          (call (get_commits repo) (\<lambda>commits.
             let recent_commits = take 10 commits;
                 has_recent_commits = (length recent_commits > 0)
             in stmt (add_check category ''Active maintainers with recent commits'' has_recent_commits 1
                  (''Found '' @ str_nat (length recent_commits) @ '' recent commits'')
                  ''Ensure regular commits to show active maintenance. If the project is complete, add a note about its maintenance status in the README.'')))
          (stmt (add_check category ''Active maintainers with recent commits'' False 1
                  ''Could not fetch commit history''
                  ''Make sure the repository has commits and is accessible. Regular commits demonstrate active maintenance.'')),
        (let has_coc = check_file_exists repo ''CODE_OF_CONDUCT.md''
         in stmt (add_check category ''Code of Conduct present'' has_coc 1
              ''Checked for CODE_OF_CONDUCT.md file in repository root''
              ''Add a CODE_OF_CONDUCT.md file to set expectations for community behavior. GitHub provides a template under 'Insights > Community > Code of conduct'.'')),
        call (or_else (check_file_exists repo ''ROADMAP.md'')
                (on_value (\<lambda>n. n > 0) (milestones_totalCount repo))) (\<lambda>has_roadmap.
          call (milestones_totalCount repo) (\<lambda>found.
            stmt (add_check category ''Project roadmap or milestones documented'' has_roadmap 1
              (''Checked for ROADMAP.md file and GitHub milestones (found '' @ str_int found @ '' milestones)'')
              ''Create a ROADMAP.md file or use GitHub Milestones (under 'Issues' tab) to document planned features and project direction.''))),
        call (on_value (\<lambda>n. n > 0) (collaborators_totalCount repo)) (\<lambda>has_collaborators.
          call (collaborators_totalCount repo) (\<lambda>found.
            stmt (add_check category ''Well-governed with active maintainers'' has_collaborators 1
              (''Collaborators: '' @ str_int found)
              ''Add collaborators to your repository through Settings > Collaborators. Having multiple maintainers ensures better project governance.'')))
      ])"

definition check_documentation :: "repo \<Rightarrow> step" where
  "check_documentation repo =
     (let category = ''Documentation & Usability'' in
      seq [
        try_except
          (call (get_readme repo) (\<lambda>readme. call (cf_text readme) (\<lambda>text.
             let readme_content = lower text;
                 has_installation = any_in [''install'', ''setup'', ''getting started'', ''quick start''] readme_content;
                 has_usage = any_in [''usage'', ''example'', ''how to use'', ''tutorial''] readme_content
             in seq [
                  stmt (add_check category ''Installation guide in README'' has_installation 1
                    ''Searched README for keywords: install, setup, getting started, quick start''
                    ''Add an installation section to your README.md. Include step-by-step instructions for setting up the project (e.g., ## Installation, ## Setup, or ## Getting Started).''),
                  stmt (add_check category ''Usage examples provided'' has_usage 1
                    ''Searched README for keywords: usage, example, how to use, tutorial''
                    ''Add usage examples to your README.md. Include code snippets showing how to use your project (e.g., ## Usage, ## Examples, or ## Quick Start).'')
                ])))
          (seq [
             stmt (add_check category ''Installation guide in README'' False 1
               ''Could not read README file''
               ''Create a README.md file with an installation section containing setup instructions.''),
             stmt (add_check category ''Usage examples provided'' False 1
               ''Could not read README file''
               ''Create a README.md file with usage examples and code snippets.'')
           ]),
        (let wiki = has_wiki repo;
             has_docs = check_directory_exists repo ''docs''
         in stmt (add_check category ''Wiki or docs/ directory'' (wiki \<or> has_docs) 1
              (''Wiki enabled: '' @ str_bool wiki @ '', docs/ directory exists: '' @ str_bool has_docs)
              ''Enable the Wiki feature in repository Settings, or create a 'docs/' directory with detailed documentation files.'')),
        (let has_api_docs = (check_file_exists repo ''swagger.yaml'' \<or>
                             check_file_exists repo ''openapi.yaml'' \<or>
                             check_directory_exists repo ''api-docs'')
         in stmt (add_check category ''API documentation available'' has_api_docs 1
              ''Checked for swagger.yaml, openapi.yaml, or api-docs/ directory''
              ''If your project has an API, document it using OpenAPI/Swagger. Create a swagger.yaml or openapi.yaml file, or add API documentation in an api-docs/ directory.'')),
        (let has_comments = check_code_comments repo
         in stmt (add_check category ''Inline code comments present'' has_comments 1
              ''Checked sample source files for comment presence''
              ''Add meaningful comments to your code to explain complex logic. Use docstrings for functions/classes and inline comments for non-obvious code.'')),
        (let has_script_docs = check_file_exists repo ''scripts/README.md''
         in stmt (add_check category ''Scripts and configuration documented'' has_script_docs 1
              ''Checked for scripts/README.md file''
              ''If you have a scripts/ directory, create a scripts/README.md file explaining what each script does and how to use them.'')),
        (let has_faq = (check_file_exists repo ''FAQ.md'' \<or> check_file_exists repo ''TROUBLESHOOTING.md'')
         in stmt (add_check category ''FAQ or troubleshooting guide'' has_faq 1
              ''Checked for FAQ.md or TROUBLESHOOTING.md files''
              ''Create a FAQ.md or TROUBLESHOOTING.md file to help users solve common problems. Document frequently asked questions and their solutions.'')),
        stmt (add_check category ''Well-defined error messages'' True 1
          ''Manual review recommended - automated check not possible''
          ''Ensure your code provides clear, actionable error messages. Include what went wrong and how to fix it.''),
        call (releases_totalCount repo) (\<lambda>releases.
          call (or_else (releases > 0) (on_value (\<lambda>n. n > 0) (tags_totalCount repo))) (\<lambda>has_versions.
            call (releases_totalCount repo) (\<lambda>found_releases.
              call (tags_totalCount repo) (\<lambda>found_tags.
                stmt (add_check category ''Clear versioning strategy'' has_versions 1
                  (''Releases: '' @ str_int found_releases @ '', Tags: '' @ str_int found_tags)
                  ''Create releases or tags to track versions. Use semantic versioning (e.g., v1.0.0). Go to 'Releases' on GitHub and click 'Create a new release'.''))))),
        (let has_changelog = check_file_exists repo ''CHANGELOG.md''
         in stmt (add_check category ''CHANGELOG maintained'' has_changelog 1
              ''Checked for CHANGELOG.md file in repository root''
              ''Create a CHANGELOG.md file to document all notable changes. Use the format from https://keepachangelog.com/''))
      ])"

definition linter_files :: "string list" where
  "linter_files = [''.eslintrc'', ''.pylintrc'', ''.rubocop.yml'', ''tslint.json'',
                   ''.editorconfig'', ''phpcs.xml'', ''.prettierrc'']"

definition check_code_quality :: "repo \<Rightarrow> step" where
  "check_code_quality repo =
     (let category = ''Code Quality & Best Practices'';
          has_linter = list_ex (\<lambda>f. check_file_exists repo f) linter_files
      in
      seq [
        stmt (add_check category ''Code follows style guide'' has_linter 1
          (''Checked for linter config files: '' @ join '', '' linter_files)
          ''Add a linter configuration file for your language (e.g., .eslintrc for JavaScript, .pylintrc for Python, .rubocop.yml for Ruby).''),
        stmt (add_check category ''Uses linters'' has_linter 1
          (''Checked for linter config files: '' @ join '', '' linter_files)
          ''Configure and use a linter for your project. Add the config file and include linting in your CI/CD pipeline.''),
        try_except
          (call (get_contents repo []) (\<lambda>cs. call (entries cs) (\<lambda>items.
             let num_dirs = length (filter (\<lambda>item. cf_type item = ''dir'') items);
                 is_modular = (num_dirs \<ge> 2)
             in stmt (add_check category ''Code is modular and maintainable'' is_modular 1
                  (''Found '' @ str_nat num_dirs @ '' directories in repository root'')
                  ''Organize your code into logical modules/directories (e.g., src/, lib/, tests/). This improves maintainability and code organization.''))))
          (stmt (add_check category ''Code is modular and maintainable'' False 1
                  ''Could not analyze repository structure''
                  ''Organize your code into logical modules and directories to improve maintainability.'')),
        stmt (add_check category ''Adheres to DRY principle'' True 1
          ''Manual code review recommended - automated check not possible''
          ''Follow the Don't Repeat Yourself (DRY) principle. Extract common code into reusable functions/modules.''),
        stmt (add_check category ''Secure coding practices followed'' True 1
          ''Verified by other security checks in this report''
          ''Follow OWASP secure coding guidelines. Review the Security & OWASP Compliance section for specific recommendations.''),
        (let no_secrets = check_no_secrets repo
         in stmt (add_check category ''No hardcoded credentials or secrets'' no_secrets 1
              ''Basic pattern check performed''
              ''Remove any hardcoded passwords, API keys, or secrets from your code. Use environment variables or secure vaults. Scan with tools like git-secrets or truffleHog.'')),
        stmt (add_check category ''Uses parameterized queries'' True 1
          ''Manual verification recommended for SQL databases''
          ''If using databases, always use parameterized queries or prepared statements. Never concatenate user input directly into SQL queries.''),
        stmt (add_check category ''Strong cryptographic algorithms'' True 1
          ''Manual review recommended''
          ''Use modern cryptographic algorithms (e.g., AES-256, SHA-256+). Avoid weak algorithms like MD5 or SHA-1 for security purposes.''),
        stmt (add_check category ''Input validation implemented'' True 1
          ''Verified by security scanning recommendations''
          ''Validate and sanitize all user inputs. Use allowlists, reject invalid data, and implement proper type checking.''),
        stmt (add_check category ''Output encoding for XSS prevention'' True 1
          ''Verified by security scanning recommendations''
          ''Encode all output to prevent XSS attacks. Use context-appropriate encoding (HTML, JavaScript, URL, CSS).'')
      ])"

definition check_security :: "repo \<Rightarrow> step" where
  "check_security repo =
     (let category = ''Security & OWASP Compliance'' in
      seq [
        (let has_security = check_file_exists repo ''SECURITY.md''
         in stmt (add_check category ''Security policy (SECURITY.md)'' has_security 1
              ''Checked for SECURITY.md file in repository root''
              ''Create a SECURITY.md file to document your security policy and how to report vulnerabilities. GitHub provides a template under 'Security' tab.'')),
        (let has_dependabot = check_file_exists repo ''.github/dependabot.yml''
         in stmt (add_check category ''Dependency scanning configured'' has_dependabot 1
              ''Checked for .github/dependabot.yml configuration''
              ''Enable Dependabot in repository Settings > Security > Dependabot alerts. Create .github/dependabot.yml to configure automatic dependency updates.'')),
        stmt (add_check category ''Uses secure headers (CSP, HSTS, etc.)'' True 1
          ''Manual review required for web applications''
          ''For web apps: implement Content-Security-Policy, Strict-Transport-Security, X-Frame-Options, X-Content-Type-Options headers.''),
        stmt (add_check category ''Input validation enforced'' True 1
          ''Manual code review required''
          ''Implement input validation for all user inputs. Use validation libraries, check data types, lengths, and formats. Reject invalid input.''),
        stmt (add_check category ''RBAC implemented where applicable'' True 1
          ''Manual review required for multi-user systems''
          ''If applicable: implement Role-Based Access Control (RBAC). Define roles and permissions, restrict access based on user roles.''),
        stmt (add_check category ''Secure authentication mechanisms'' True 1
          ''Manual review required for auth systems''
          ''Use industry-standard authentication (OAuth 2.0, OpenID Connect). Implement MFA where possible. Use secure password hashing (bcrypt, Argon2).''),
        stmt (add_check category ''Secrets stored securely'' True 1
          ''Check for .env.example file, ensure no .env in repository''
          ''Never commit secrets to Git. Use environment variables, .env files (gitignored), or secret managers (AWS Secrets Manager, Azure Key Vault). Add .env.example as template.''),
        stmt (add_check category ''Uses HTTPS for communication'' True 1
          ''Manual verification required''
          ''Always use HTTPS for network communication. Configure TLS/SSL certificates. Force HTTPS redirects in web applications.''),
        stmt (add_check category ''Adheres to OWASP ASVS'' True 1
          ''Manual security assessment required''
          ''Review the OWASP Application Security Verification Standard (ASVS) at https://owasp.org/www-project-application-security-verification-standard/''),
        stmt (add_check category ''Secure cookie attributes'' True 1
          ''For web applications: verify cookie settings''
          ''For web apps: set Secure, HttpOnly, and SameSite attributes on cookies. Use __Host- or __Secure- prefixes.''),
        stmt (add_check category ''No unnecessary ports exposed'' True 1
          ''Manual infrastructure review required''
          ''Review firewall rules and exposed ports. Only expose necessary ports. Use security groups and network policies to restrict access.''),
        stmt (add_check category ''Logs security events'' True 1
          ''Manual logging implementation review required''
          ''Log security-relevant events: authentication attempts, authorization failures, input validation errors. Include timestamps and user context.''),
        stmt (add_check category ''Least privilege principle'' True 1
          ''Manual code and infrastructure review required''
          ''Grant minimum permissions needed. Avoid running as root/admin. Use service accounts with limited permissions.''),
        stmt (add_check category ''No outdated/unsafe dependencies'' True 1
          ''Regular dependency scanning recommended''
          ''Use tools like OWASP Dependency-Check, Snyk, or npm audit. Keep dependencies updated. Enable Dependabot or Renovate for automated updates.''),
        stmt (add_check category ''Complies with OWASP Top 10'' True 1
          ''Manual security testing and review required''
          ''Review and test against OWASP Top 10 vulnerabilities at https://owasp.org/www-project-top-ten/. Consider security testing tools and penetration testing.'')
      ])"

definition check_cicd :: "repo \<Rightarrow> step" where
  "check_cicd repo =
     (let category = ''CI/CD & DevSecOps'';
          has_tests = (check_directory_exists repo ''tests'' \<or>
                       check_directory_exists repo ''test'' \<or>
                       check_directory_exists repo ''__tests__'');
          has_ci = (check_directory_exists repo ''.github/workflows'' \<or>
                    check_file_exists repo ''.gitlab-ci.yml'' \<or>
                    check_file_exists repo ''.travis.yml'' \<or>
                    check_file_exists repo ''Jenkinsfile'')
      in
      seq [
        stmt (add_check category ''Automated unit tests implemented'' has_tests 1
          ''Checked for tests/, test/, or __tests__ directories''
          ''Create a tests/ or test/ directory and add unit tests for your code. Use testing frameworks like pytest (Python), Jest (JavaScript), JUnit (Java), etc.''),
        stmt (add_check category ''Continuous Integration configured'' has_ci 1
          ''Checked for .github/workflows/, .gitlab-ci.yml, .travis.yml, or Jenkinsfile''
          ''Set up CI using GitHub Actions (.github/workflows/), GitLab CI (.gitlab-ci.yml), Travis CI, or Jenkins. Run tests automatically on every push.''),
        stmt (add_check category ''CI/CD includes security scanning'' has_ci 1
          ''Verify workflow files include SAST/DAST tools''
          ''Add security scanning to your CI pipeline. Use CodeQL (GitHub), SonarQube, or other SAST tools. Add the scan step to your workflow file.''),
        stmt (add_check category ''Dependency scanning automated'' has_ci 1
          ''Check for dependency scanning in CI workflows''
          ''Add dependency scanning to CI. Use GitHub's Dependabot, Snyk, or OWASP Dependency-Check. Configure in .github/dependabot.yml or CI workflow.''),
        stmt (add_check category ''Code coverage reports generated'' has_ci 1
          ''Check for coverage tools in CI configuration''
          ''Add code coverage to your CI pipeline. Use tools like Coverage.py (Python), Istanbul/NYC (JavaScript), JaCoCo (Java). Report coverage with Codecov or Coveralls.''),
        stmt (add_check category ''Container security scanning'' True 1
          ''Required if project uses containers''
          ''If using Docker: scan images with Trivy, Clair, or Snyk Container. Add to CI: 'docker scan' or trivy image scan before deployment.''),
        stmt (add_check category ''IaC security checks'' True 1
          ''Required if using Infrastructure as Code''
          ''If using IaC (Terraform, CloudFormation): use tools like Checkov, tfsec, or CloudFormation Guard to scan for security issues.''),
        stmt (add_check category ''Secure secrets management in CI/CD'' True 1
          ''Manual verification: ensure no secrets in workflow files''
          ''Use GitHub Secrets, GitLab CI/CD variables, or similar for sensitive data. Never hardcode secrets in workflow files. Reference secrets as ${{ secrets.SECRET_NAME }}.''),
        stmt (add_check category ''Environment configurations managed'' True 1
          ''Check for .env.example or config documentation''
          ''Document environment variables in .env.example. Use environment-specific configs. Keep production secrets out of version control.''),
        stmt (add_check category ''Rollback mechanisms available'' True 1
          ''Manual deployment process review required''
          ''Implement deployment rollback capability. Use versioned releases, blue-green deployments, or feature flags for safe rollbacks.'')
      ])"

definition check_testing :: "repo \<Rightarrow> step" where
  "check_testing repo =
     (let category = ''Testing & Validation'';
          has_tests = (check_directory_exists repo ''tests'' \<or> check_directory_exists repo ''test'')
      in
      seq [
        stmt (add_check category ''Tests cover edge cases'' has_tests 1 ''Requires test review'' []),
        stmt (add_check category ''Unit, integration, and E2E tests'' has_tests 1 [] []),
        stmt (add_check category ''Uses mocks and stubs'' has_tests 1 ''Check test files'' []),
        stmt (add_check category ''Achieves 80%+ test coverage'' has_tests 1 ''Run coverage tools'' []),
        stmt (add_check category ''Tests validate input sanitization'' has_tests 1 [] []),
        stmt (add_check category ''Automated fuzz testing'' False 1 ''Advanced feature'' []),
        stmt (add_check category ''Fails gracefully with error logging'' True 1 ''Manual verification'' []),
        stmt (add_check category ''No sensitive data in logs'' True 1 ''Code review needed'' []),
        stmt (add_check category ''Uses dependency injection'' True 1 ''Architecture review'' []),
        stmt (add_check category ''Regression tests for compatibility'' has_tests 1 [] [])
      ])"

definition check_performance :: "repo \<Rightarrow> step" where
  "check_performance repo =
     (let category = ''Performance & Scalability'' in
      seq [
        stmt (add_check category ''Code optimized for performance'' True 1 ''Requires profiling'' []),
        stmt (add_check category ''Asynchronous processing where needed'' True 1 ''Architecture review'' []),
        stmt (add_check category ''Caching strategies implemented'' True 1 ''Check for cache configuration'' []),
        stmt (add_check category ''Optimized database queries'' True 1 ''Database review needed'' []),
        stmt (add_check category ''Rate limiting to prevent abuse'' True 1 ''For web services'' []),
        stmt (add_check category ''No memory leaks'' True 1 ''Profiling required'' []),
        stmt (add_check category ''Load testing performed'' False 1 ''Check for load test scripts'' []),
        stmt (add_check category ''Supports horizontal scaling'' True 1 ''Architecture review'' []),
        stmt (add_check category ''Uses lazy loading'' True 1 ''Manual code review'' []),
        stmt (add_check category ''Pagination for large datasets'' True 1 ''API/UI review'' [])
      ])"

definition check_logging :: "repo \<Rightarrow> step" where
  "check_logging repo =
     (let category = ''Logging & Monitoring'' in
      seq [
        stmt (add_check category ''Logging implemented'' True 1 ''Check for logging framework'' []),
        stmt (add_check category ''Configurable log levels'' True 1 ''Check configuration files'' []),
        stmt (add_check category ''Logs don't contain sensitive data'' True 1 ''Code review required'' []),
        stmt (add_check category ''Monitoring integration'' False 1 ''Check for monitoring setup'' []),
        stmt (add_check category ''Structured logging format'' True 1 ''Check logging implementation'' []),
        stmt (add_check category ''Audit logs for security actions'' True 1 ''Security review needed'' []),
        stmt (add_check category ''Alerts configured'' False 1 ''Manual infrastructure check'' []),
        stmt (add_check category ''Log rotation and archival'' True 1 ''Operations review'' []),
        stmt (add_check category ''Incident response playbook'' False 1 ''Check documentation'' []),
        stmt (add_check category ''Logging config separate from code'' True 1 ''Check for config files'' [])
      ])"

text \<open>
  \<^verbatim>\<open>timedelta(days=n)\<close> in microseconds, and \<^verbatim>\<open>d > t\<close> for a timestamp \<open>d\<close> of the
  hosting client against the naive local time \<open>t\<close>: Python refuses to compare a
  timestamp that carries a time zone with one that does not.
\<close>

definition timedelta_days :: "int \<Rightarrow> int" where
  "timedelta_days n = n * 86400000000"

definition later_than :: "datetime \<Rightarrow> int \<Rightarrow> exn + bool" where
  "later_than d t =
     (if dt_aware d
      then Inl (OtherException ''TypeError'' ''can't compare offset-naive and offset-aware datetimes'')
      else Inr (dt_instant d > t))"

definition check_community :: "int \<Rightarrow> repo \<Rightarrow> step" where
  "check_community datetime_now repo =
     (let category = ''Community & Support'' in
      seq [
        (let has_recent_activity = (pushed_at repo \<noteq> None)
         in stmt (add_check category ''Maintainers actively engage'' has_recent_activity 1 [] [])),
        (let has_security_md = check_file_exists repo ''SECURITY.md''
         in seq [
              stmt (add_check category ''Security vulnerability reporting process'' has_security_md 1 [] []),
              stmt (add_check category ''Security policy file (SECURITY.md)'' has_security_md 1 [] [])
            ]),
        stmt (add_check category ''Community guidelines present'' True 1 ''Check CODE_OF_CONDUCT.md'' []),
        stmt (add_check category ''Responsive to security issues'' True 1 ''Check issue response time'' []),
        (let one_year_ago = datetime_now - timedelta_days 365
         in call (case pushed_at repo of Some d \<Rightarrow> later_than d one_year_ago | None \<Rightarrow> Inr False)
              (\<lambda>recently_updated.
                 stmt (add_check category ''Regular project updates'' recently_updated 1
                   (''Last update: '' @ (case pushed_at repo of Some d \<Rightarrow> dt_str d | None \<Rightarrow> ''None''))
                   []))),
        (let discussions = has_discussions repo
         in stmt (add_check category ''Multiple support channels'' discussions 1
              (if discussions then ''GitHub Discussions enabled'' else ''Check for other channels'')
              [])),
        stmt (add_check category ''Clear escalation path'' True 1 ''Check SECURITY.md'' []),
        stmt (add_check category ''PR reviews before merging'' True 1 ''Check branch protection'' []),
        stmt (add_check category ''Good issue tracking hygiene'' True 1
          (''Open issues: '' @ str_int (open_issues_count repo)) [])
      ])"

definition check_legal :: "repo \<Rightarrow> step" where
  "check_legal repo =
     (let category = ''Legal & Compliance'' in
      seq [
        stmt (add_check category ''GDPR/CCPA compliance'' True 1 ''Manual legal review needed'' []),
        call (get_license repo) (\<lambda>lic.
          let has_license = (lic \<noteq> None)
          in stmt (add_check category ''Dependencies properly licensed'' has_license 1
               ''Check third-party licenses'' [])),
        call (get_license repo) (\<lambda>lic.
          let is_open_source = (lic \<noteq> None)
          in stmt (add_check category ''No proprietary/restricted code'' is_open_source 1 [] [])),
        (let has_privacy = check_file_exists repo ''PRIVACY.md''
         in stmt (add_check category ''Users informed of data collection'' has_privacy 1 [] [])),
        (let has_security = check_file_exists repo ''SECURITY.md''
         in stmt (add_check category ''Responsible disclosure policy'' has_security 1 [] []))
      ])"

section \<open>The engine\<close>

text \<open>The message of the \<^verbatim>\<open>except GithubException\<close> and \<^verbatim>\<open>except Exception\<close> handlers.\<close>

fun repo_error_message :: "exn \<Rightarrow> string" where
  "repo_error_message (GithubException status msg) =
     ''Failed to fetch repository. '' @ (''Status: '' @ str_int status @ ''. '') @
     (if status = 403
      then ''API rate limit may be exceeded. Consider using a GitHub token with --token option.''
      else ''Please check the repository URL and your network connection.'')"
| "repo_error_message (OtherException tname msg) =
     ''Unexpected error: '' @ tname @ '': '' @ msg"

definition check_github_repo :: "world \<Rightarrow> string \<Rightarrow> string \<Rightarrow> checker \<Rightarrow> checker" where
  "check_github_repo w owner repo_name st =
     snd (try_except_as
            (call (get_repo w (owner @ ''/'' @ repo_name)) (\<lambda>repo.
               seq [
                 check_general_compliance repo owner,
                 check_documentation repo,
                 check_code_quality repo,
                 check_security repo,
                 check_cicd repo,
                 check_testing repo,
                 check_performance repo,
                 check_logging repo,
                 check_community (now w) repo,
                 check_legal repo
               ]))
            (\<lambda>e. stmt (set_error (repo_error_message e)))
            st)"

definition check_website_compliance :: "world \<Rightarrow> string \<Rightarrow> checker \<Rightarrow> checker" where
  "check_website_compliance w page_url st =
     snd (try_except_as
            (call (requests_get w page_url) (\<lambda>response_text.
               call (soup_get_text w response_text) (\<lambda>plain.
                 let content = lower plain;
                     category = ''Website Compliance'';
                     has_owasp = contains ''owasp'' content;
                     has_security = any_in [''security'', ''vulnerability'', ''privacy''] content
                 in seq [
                      stmt (add_check category ''Mentions OWASP'' has_owasp 5 [] []),
                      stmt (add_check category ''Security-focused content'' has_security 5 [] []),
                      stmt (set_note ''Limited compliance checks for non-GitHub URLs. Consider providing a GitHub repository URL for comprehensive analysis.'')
                    ])))
            (\<lambda>e. stmt (set_error (''Failed to fetch website: '' @ exn_str e)))
            st)"

text \<open>
  \<^verbatim>\<open>round(x, 2)\<close> on the exact value: to the nearest hundredth, a tie going to the even
  neighbour. \<open>percentage_of\<close> is line 64 of the source,
  \<^verbatim>\<open>round((current_score / max_score) * 100, 2)\<close>.
\<close>

definition round2 :: "rat \<Rightarrow> rat" where
  "round2 x =
     (let y = x * 100; f = \<lfloor>y\<rfloor>; d = y - of_int f
      in of_int (if d < 1 / 2 then f else if 1 / 2 < d then f + 1 else if even f then f else f + 1) / 100)"

definition percentage_of :: "int \<Rightarrow> int \<Rightarrow> rat" where
  "percentage_of cur mx = round2 ((of_int cur / of_int mx) * 100)"

definition is_github_netloc :: "string \<Rightarrow> bool" where
  "is_github_netloc nl = (lower nl \<in> set [''github.com'', ''www.github.com''])"

text \<open>
  \<open>check_compliance\<close>, block by block: the fresh results dictionary (lines 39 to 45), the
  choice between the repository path and the website path (lines 50 to 60), and the final
  score and percentage (lines 63 to 66). A failing \<^verbatim>\<open>urlparse\<close> and a division by a
  zero \<open>max_score\<close> are not caught and leave \<open>check_compliance\<close> as exceptions.
\<close>

definition new_results :: "string \<Rightarrow> checker \<Rightarrow> checker" where
  "new_results repo_url st =
     st\<lparr>results := \<lparr>url = repo_url, score = 0, max_score = self_max_score st,
                      percentage = 0, categories = [], error = None, note = None\<rparr>\<rparr>"

definition path_parts_of :: "parsed_url \<Rightarrow> string list" where
  "path_parts_of parsed = split CHR ''/'' (strip CHR ''/'' (path parsed))"

definition run_checks :: "world \<Rightarrow> string \<Rightarrow> parsed_url \<Rightarrow> checker \<Rightarrow> checker" where
  "run_checks w repo_url parsed st =
     (let is_github = is_github_netloc (netloc parsed)
      in if is_github
         then (let path_parts = path_parts_of parsed
               in if length path_parts \<ge> 2
                  then (let owner = path_parts ! 0; repo_name = path_parts ! 1
                        in check_github_repo w owner repo_name st)
                  else st)
         else check_website_compliance w repo_url st)"

definition finalize :: "checker \<Rightarrow> (exn + report) \<times> checker" where
  "finalize st =
     (let st1 = st\<lparr>results := (results st)\<lparr>score := current_score st\<rparr>\<rparr>
      in if self_max_score st1 = 0
         then (Inl (OtherException ''ZeroDivisionError'' ''division by zero''), st1)
         else (let st2 = st1\<lparr>results := (results st1)
                            \<lparr>percentage := percentage_of (current_score st1) (self_max_score st1)\<rparr>\<rparr>
               in (Inr (results st2), st2)))"

definition check_compliance :: "world \<Rightarrow> string \<Rightarrow> checker \<Rightarrow> (exn + report) \<times> checker" where
  "check_compliance w repo_url st =
     (let st1 = new_results repo_url st
      in case urlparse w repo_url of
           Inl e \<Rightarrow> (Inl e, st1)
         | Inr parsed \<Rightarrow> finalize (run_checks w repo_url parsed st1))"

section \<open>Properties of reports\<close>

text \<open>
  The check record that \<open>add_check\<close> appends, and what appending it does to a category.
  \<open>add_check\<close> is shown below to be exactly \<open>extend\<close> on the category it names.
\<close>

definition made_check :: "string \<Rightarrow> bool \<Rightarrow> int \<Rightarrow> string \<Rightarrow> string \<Rightarrow> check" where
  "made_check a_name a_passed a_points a_details a_how_to_fix =
     \<lparr>name = a_name, passed = a_passed, points = (if a_passed then a_points else 0),
      max_points = a_points, details = a_details,
      how_to_fix = (if \<not> a_passed then a_how_to_fix else [])\<rparr>"

definition extend :: "check \<Rightarrow> category \<Rightarrow> category" where
  "extend ch c = \<lparr>checks = checks c @ [ch], cat_score = cat_score c + points ch,
                  cat_max_score = cat_max_score c + max_points ch\<rparr>"

definition empty_category :: category where
  "empty_category = \<lparr>checks = [], cat_score = 0, cat_max_score = 0\<rparr>"

text \<open>Every check of a report, paired with the name of its category, in report order.\<close>

definition checks_of :: "(string \<times> category) list \<Rightarrow> (string \<times> check) list" where
  "checks_of cs = concat (map (\<lambda>(n, c). map (Pair n) (checks c)) cs)"

definition all_checks :: "report \<Rightarrow> (string \<times> check) list" where
  "all_checks r = checks_of (categories r)"

text \<open>
  The category invariant: the score is the sum of the weights of the checks that passed,
  the maximum is the sum of all weights, and the score does not exceed the maximum.
\<close>

definition passed_weight :: "check \<Rightarrow> int" where
  "passed_weight ch = (if passed ch then max_points ch else 0)"

definition category_sums :: "category \<Rightarrow> bool" where
  "category_sums c \<longleftrightarrow>
     cat_score c = sum_list (map passed_weight (checks c)) \<and>
     cat_max_score c = sum_list (map max_points (checks c))"

definition category_invariant :: "category \<Rightarrow> bool" where
  "category_invariant c \<longleftrightarrow> category_sums c \<and> cat_score c \<le> cat_max_score c"

definition categories_sums :: "report \<Rightarrow> bool" where
  "categories_sums r \<longleftrightarrow> list_all (\<lambda>(n, c). category_sums c) (categories r)"

definition categories_invariant :: "report \<Rightarrow> bool" where
  "categories_invariant r \<longleftrightarrow> list_all (\<lambda>(n, c). category_invariant c) (categories r)"

definition total_score :: "report \<Rightarrow> int" where
  "total_score r = sum_list (map (\<lambda>(n, c). cat_score c) (categories r))"

definition total_max_score :: "report \<Rightarrow> int" where
  "total_max_score r = sum_list (map (\<lambda>(n, c). cat_max_score c) (categories r))"

text \<open>A step preserves a property of the checker, whether it completes or raises.\<close>

definition preserves :: "(checker \<Rightarrow> bool) \<Rightarrow> step \<Rightarrow> bool" where
  "preserves P f \<longleftrightarrow> (\<forall>st e st'. P st \<longrightarrow> f st = (e, st') \<longrightarrow> P st')"

text \<open>
  What the call sites of \<open>add_check\<close> have in common. The five categories of the first
  list pass a remediation text at every call and weight 1; the categories of the second
  list pass none, with weight 1, or 5 on the website path. The check on hard-coded
  secrets is the only one with its name, and it is called with what \<open>check_no_secrets\<close>
  returned.
\<close>

definition remediated_categories :: "string list" where
  "remediated_categories =
     [''General Compliance & Governance'', ''Documentation & Usability'',
      ''Code Quality & Best Practices'', ''Security & OWASP Compliance'', ''CI/CD & DevSecOps'']"

definition plain_categories :: "string list" where
  "plain_categories =
     [''Testing & Validation'', ''Performance & Scalability'', ''Logging & Monitoring'',
      ''Community & Support'', ''Legal & Compliance'', ''Website Compliance'']"

definition site :: "string \<Rightarrow> string \<Rightarrow> bool \<Rightarrow> int \<Rightarrow> string \<Rightarrow> bool" where
  "site cat n p pts f \<longleftrightarrow>
     (cat \<in> set remediated_categories \<and> pts = 1 \<and> f \<noteq> [] \<and>
        (n = ''No hardcoded credentials or secrets'' \<longrightarrow> p)) \<or>
     (cat \<in> set plain_categories \<and> (pts = 1 \<or> pts = 5) \<and> f = [] \<and>
        n \<noteq> ''No hardcoded credentials or secrets'')"

text \<open>
  What holds of every check record: a passed check has all its points and no remediation;
  a failed check has no points, and has a remediation text exactly in the five categories
  whose call sites pass one.
\<close>

definition check_rule :: "string \<times> check \<Rightarrow> bool" where
  "check_rule nc = (case nc of (cat, ch) \<Rightarrow>
     (if passed ch then points ch = max_points ch \<and> how_to_fix ch = []
      else points ch = 0 \<and> (how_to_fix ch \<noteq> [] \<longleftrightarrow> cat \<in> set remediated_categories)))"

definition secrets_rule :: "string \<times> check \<Rightarrow> bool" where
  "secrets_rule nc = (case nc of (cat, ch) \<Rightarrow>
     name ch = ''No hardcoded credentials or secrets'' \<longrightarrow>
       passed ch \<and> points ch = 1 \<and> max_points ch = 1)"

section \<open>Sample worlds\<close>

text \<open>
  A website whose page has the given text, and the report of the page
  \<open>OWASP project\<close>: it names the standards body and none of the security keywords.
\<close>

definition website_world :: "string \<Rightarrow> world" where
  "website_world page_text =
     \<lparr>urlparse = (\<lambda>u. Inr \<lparr>scheme = ''https'', netloc = ''example.org'', path = [],
                             params = [], query = [], fragment = []\<rparr>),
      get_repo = (\<lambda>n. Inl (GithubException 404 ''Not Found'')),
      requests_get = (\<lambda>u. Inr page_text),
      soup_get_text = (\<lambda>t. Inr t),
      now = 0\<rparr>"

definition owasp_page_report :: "int \<Rightarrow> report" where
  "owasp_page_report shown =
     \<lparr>url = ''https://example.org'', score = shown, max_score = 100,
      percentage = of_int shown,
      categories = [(''Website Compliance'',
         \<lparr>checks = [\<lparr>name = ''Mentions OWASP'', passed = True, points = 5, max_points = 5,
                       details = [], how_to_fix = []\<rparr>,
                    \<lparr>name = ''Security-focused content'', passed = False, points = 0,
                       max_points = 5, details = [], how_to_fix = []\<rparr>],
          cat_score = 5, cat_max_score = 10\<rparr>)],
      error = None,
      note = Some ''Limited compliance checks for non-GitHub URLs. Consider providing a GitHub repository URL for comprehensive analysis.''\<rparr>"

section \<open>What one call of \<open>add_check\<close> does\<close>

lemma modify_append_new:
  "map_of xs k = None \<Longrightarrow> modify k f (xs @ [(k, v)]) = xs @ [(k, f v)]"
  by (induction k f xs rule: modify.induct) (auto split: if_splits)

lemma modify_modify: "modify k f (modify k g xs) = modify k (\<lambda>v. f (g v)) xs"
  by (induction k g xs rule: modify.induct) auto

lemma modify_cong: "(\<And>v. f v = g v) \<Longrightarrow> modify k f xs = modify k g xs"
  by (induction k f xs rule: modify.induct) auto

lemma categories_add_check:
  "categories (results (add_check cat n p pts d f st)) =
     (if map_of (categories (results st)) cat = None
      then categories (results st) @ [(cat, extend (made_check n p pts d f) empty_category)]
      else modify cat (extend (made_check n p pts d f)) (categories (results st)))"
proof (cases "map_of (categories (results st)) cat = None")
  case True
  then show ?thesis
    by (simp add: add_check_def Let_def modify_append_new extend_def made_check_def
        empty_category_def)
next
  case False
  then show ?thesis
    by (auto simp: add_check_def Let_def modify_modify extend_def made_check_def
        intro!: modify_cong category.equality)
qed

lemma current_score_add_check:
  "current_score (add_check cat n p pts d f st) = current_score st + (if p then pts else 0)"
  by (simp add: add_check_def Let_def)

lemma other_fields_add_check:
  "error (results (add_check cat n p pts d f st)) = error (results st)"
  "note (results (add_check cat n p pts d f st)) = note (results st)"
  "url (results (add_check cat n p pts d f st)) = url (results st)"
  "score (results (add_check cat n p pts d f st)) = score (results st)"
  "max_score (results (add_check cat n p pts d f st)) = max_score (results st)"
  "percentage (results (add_check cat n p pts d f st)) = percentage (results st)"
  "self_max_score (add_check cat n p pts d f st) = self_max_score st"
  "github_token (add_check cat n p pts d f st) = github_token st"
  by (simp_all add: add_check_def Let_def)

lemma checks_of_simps:
  "checks_of [] = []"
  "checks_of ((k, c) # xs) = map (Pair k) (checks c) @ checks_of xs"
  "checks_of (xs @ ys) = checks_of xs @ checks_of ys"
  by (simp_all add: checks_of_def)

lemma set_checks_of_modify:
  "map_of xs k \<noteq> None \<Longrightarrow>
   set (checks_of (modify k (extend ch) xs)) = insert (k, ch) (set (checks_of xs))"
proof (induction xs)
  case Nil
  then show ?case by simp
next
  case (Cons a xs)
  obtain k' c where a: "a = (k', c)" by (cases a)
  show ?case
  proof (cases "k' = k")
    case True
    then show ?thesis by (auto simp: a checks_of_simps extend_def)
  next
    case False
    with Cons have "set (checks_of (modify k (extend ch) xs)) = insert (k, ch) (set (checks_of xs))"
      by (simp add: a)
    with False show ?thesis by (auto simp: a checks_of_simps)
  qed
qed

lemma set_all_checks_add_check:
  "set (all_checks (results (add_check cat n p pts d f st))) =
     insert (cat, made_check n p pts d f) (set (all_checks (results st)))"
  by (simp add: all_checks_def categories_add_check set_checks_of_modify checks_of_simps
      extend_def empty_category_def)

lemma category_sums_extend:
  "category_sums c \<Longrightarrow> points ch = passed_weight ch \<Longrightarrow> category_sums (extend ch c)"
  by (simp add: category_sums_def extend_def)

lemma category_invariant_extend:
  "category_invariant c \<Longrightarrow> 0 \<le> max_points ch \<Longrightarrow> points ch = passed_weight ch \<Longrightarrow>
   category_invariant (extend ch c)"
  by (auto simp: category_invariant_def category_sums_def extend_def passed_weight_def
      split: if_splits)

lemma list_all_modify:
  "list_all Q xs \<Longrightarrow> (\<And>v. Q (k, v) \<Longrightarrow> Q (k, f v)) \<Longrightarrow> list_all Q (modify k f xs)"
  by (induction k f xs rule: modify.induct) auto

lemma made_check_weight: "points (made_check n p pts d f) = passed_weight (made_check n p pts d f)"
  by (simp add: made_check_def passed_weight_def)

lemma categories_sums_add_check:
  "categories_sums (results st) \<Longrightarrow> categories_sums (results (add_check cat n p pts d f st))"
  unfolding categories_sums_def categories_add_check
  by (auto intro!: list_all_modify category_sums_extend made_check_weight)
     (simp add: category_sums_def extend_def empty_category_def made_check_def passed_weight_def)

lemma categories_invariant_add_check:
  "categories_invariant (results st) \<Longrightarrow> 0 \<le> pts \<Longrightarrow>
   categories_invariant (results (add_check cat n p pts d f st))"
  unfolding categories_invariant_def categories_add_check
  by (auto intro!: list_all_modify category_invariant_extend made_check_weight)
     (simp_all add: category_invariant_def category_sums_def extend_def empty_category_def
        made_check_def passed_weight_def)

lemma sum_modify:
  "map_of xs k \<noteq> None \<Longrightarrow> (\<And>v. g (f v) = g v + d) \<Longrightarrow>
   sum_list (map (\<lambda>(n, c). g c) (modify k f xs)) = sum_list (map (\<lambda>(n, c). g c) xs) + (d::int)"
  by (induction k f xs rule: modify.induct) auto

lemma total_score_add_check:
  "total_score (results (add_check cat n p pts d f st)) =
     total_score (results st) + (if p then pts else 0)"
  unfolding total_score_def categories_add_check
  by (auto simp: sum_modify extend_def made_check_def empty_category_def)

lemma total_max_score_add_check:
  "total_max_score (results (add_check cat n p pts d f st)) = total_max_score (results st) + pts"
  unfolding total_max_score_def categories_add_check
  by (auto simp: sum_modify extend_def made_check_def empty_category_def)

lemma preservesD: "preserves P f \<Longrightarrow> P st \<Longrightarrow> f st = (e, st') \<Longrightarrow> P st'"
  unfolding preserves_def by blast

lemma preservesI: "(\<And>st e st'. P st \<Longrightarrow> f st = (e, st') \<Longrightarrow> P st') \<Longrightarrow> preserves P f"
  unfolding preserves_def by blast

lemma preserves_stmt:
  assumes "\<And>st. P st \<Longrightarrow> P (g st)"
  shows "preserves P (stmt g)"
proof (rule preservesI)
  fix st e st' assume P: "P st" and run: "stmt g st = (e, st')"
  from run have "st' = g st" by (simp add: stmt_def)
  with assms [OF P] show "P st'" by simp
qed

lemma preserves_call:
  assumes "\<And>v. preserves P (k v)"
  shows "preserves P (call x k)"
proof (rule preservesI)
  fix st e st' assume P: "P st" and run: "call x k st = (e, st')"
  show "P st'"
  proof (cases x)
    case (Inl a)
    with run have "st' = st" by (simp add: call_def)
    with P show ?thesis by simp
  next
    case (Inr v)
    with run have "k v st = (e, st')" by (simp add: call_def)
    with assms P show ?thesis by (rule preservesD)
  qed
qed

lemma preserves_try_as:
  assumes b: "preserves P b" and h: "\<And>x. preserves P (h x)"
  shows "preserves P (try_except_as b h)"
proof (rule preservesI)
  fix st e st' assume P: "P st" and run: "try_except_as b h st = (e, st')"
  obtain r s1 where bs: "b st = (r, s1)" by (cases "b st")
  from b P bs have P1: "P s1" by (rule preservesD)
  show "P st'"
  proof (cases r)
    case None
    with run bs have "st' = s1" by (simp add: try_except_as_def)
    with P1 show ?thesis by simp
  next
    case (Some x)
    with run bs have "h x s1 = (e, st')" by (simp add: try_except_as_def)
    with h P1 show ?thesis by (rule preservesD)
  qed
qed

lemma preserves_try: "preserves P b \<Longrightarrow> preserves P h \<Longrightarrow> preserves P (try_except b h)"
  by (simp add: try_except_def preserves_try_as)

lemma preserves_seq_nil: "preserves P (seq [])"
  by (rule preservesI) simp

lemma preserves_seq_cons:
  assumes f: "preserves P f" and fs: "preserves P (seq fs)"
  shows "preserves P (seq (f # fs))"
proof (rule preservesI)
  fix st e st' assume P: "P st" and run: "seq (f # fs) st = (e, st')"
  obtain r s1 where bs: "f st = (r, s1)" by (cases "f st")
  from f P bs have P1: "P s1" by (rule preservesD)
  show "P st'"
  proof (cases r)
    case None
    with run bs have "seq fs s1 = (e, st')" by simp
    with fs P1 show ?thesis by (rule preservesD)
  next
    case (Some x)
    with run bs have "st' = s1" by simp
    with P1 show ?thesis by simp
  qed
qed

lemmas preserves_intros =
  preserves_seq_cons preserves_seq_nil preserves_try preserves_call preserves_stmt

lemma general_sites:
  assumes "\<And>cat n p pts d f st. site cat n p pts f \<Longrightarrow> P st \<Longrightarrow> P (add_check cat n p pts d f st)"
  shows "preserves P (check_general_compliance repo owner)"
  unfolding check_general_compliance_def Let_def
  apply (intro preserves_intros assms)
  apply (simp_all add: site_def remediated_categories_def)
  done

lemma documentation_sites:
  assumes "\<And>cat n p pts d f st. site cat n p pts f \<Longrightarrow> P st \<Longrightarrow> P (add_check cat n p pts d f st)"
  shows "preserves P (check_documentation repo)"
  unfolding check_documentation_def Let_def
  apply (intro preserves_intros assms)
  apply (simp_all add: site_def remediated_categories_def plain_categories_def check_no_secrets_def)
  done

lemma code_quality_sites:
  assumes "\<And>cat n p pts d f st. site cat n p pts f \<Longrightarrow> P st \<Longrightarrow> P (add_check cat n p pts d f st)"
  shows "preserves P (check_code_quality repo)"
  unfolding check_code_quality_def Let_def
  apply (intro preserves_intros assms)
  apply (simp_all add: site_def remediated_categories_def plain_categories_def check_no_secrets_def)
  done

lemma security_sites:
  assumes "\<And>cat n p pts d f st. site cat n p pts f \<Longrightarrow> P st \<Longrightarrow> P (add_check cat n p pts d f st)"
  shows "preserves P (check_security repo)"
  unfolding check_security_def Let_def
  apply (intro preserves_intros assms)
  apply (simp_all add: site_def remediated_categories_def plain_categories_def check_no_secrets_def)
  done

lemma cicd_sites:
  assumes "\<And>cat n p pts d f st. site cat n p pts f \<Longrightarrow> P st \<Longrightarrow> P (add_check cat n p pts d f st)"
  shows "preserves P (check_cicd repo)"
  unfolding check_cicd_def Let_def
  apply (intro preserves_intros assms)
  apply (simp_all add: site_def remediated_categories_def plain_categories_def check_no_secrets_def)
  done

lemma testing_sites:
  assumes "\<And>cat n p pts d f st. site cat n p pts f \<Longrightarrow> P st \<Longrightarrow> P (add_check cat n p pts d f st)"
  shows "preserves P (check_testing repo)"
  unfolding check_testing_def Let_def
  apply (intro preserves_intros assms)
  apply (simp_all add: site_def remediated_categories_def plain_categories_def check_no_secrets_def)
  done

lemma performance_sites:
  assumes "\<And>cat n p pts d f st. site cat n p pts f \<Longrightarrow> P st \<Longrightarrow> P (add_check cat n p pts d f st)"
  shows "preserves P (check_performance repo)"
  unfolding check_performance_def Let_def
  apply (intro preserves_intros assms)
  apply (simp_all add: site_def remediated_categories_def plain_categories_def check_no_secrets_def)
  done

lemma logging_sites:
  assumes "\<And>cat n p pts d f st. site cat n p pts f \<Longrightarrow> P st \<Longrightarrow> P (add_check cat n p pts d f st)"
  shows "preserves P (check_logging repo)"
  unfolding check_logging_def Let_def
  apply (intro preserves_intros assms)
  apply (simp_all add: site_def remediated_categories_def plain_categories_def check_no_secrets_def)
  done

lemma community_sites:
  assumes "\<And>cat n p pts d f st. site cat n p pts f \<Longrightarrow> P st \<Longrightarrow> P (add_check cat n p pts d f st)"
  shows "preserves P (check_community t repo)"
  unfolding check_community_def Let_def
  apply (intro preserves_intros assms)
  apply (simp_all add: site_def remediated_categories_def plain_categories_def check_no_secrets_def)
  done

lemma legal_sites:
  assumes "\<And>cat n p pts d f st. site cat n p pts f \<Longrightarrow> P st \<Longrightarrow> P (add_check cat n p pts d f st)"
  shows "preserves P (check_legal repo)"
  unfolding check_legal_def Let_def
  apply (intro preserves_intros assms)
  apply (simp_all add: site_def remediated_categories_def plain_categories_def check_no_secrets_def)
  done

lemma github_repo_sites:
  assumes add: "\<And>cat n p pts d f st. site cat n p pts f \<Longrightarrow> P st \<Longrightarrow> P (add_check cat n p pts d f st)"
    and err: "\<And>m st. P st \<Longrightarrow> P (set_error m st)"
    and P: "P st"
  shows "P (check_github_repo w owner repo_name st)"
proof -
  let ?body = "call (get_repo w (owner @ ''/'' @ repo_name)) (\<lambda>repo.
               seq [
                 check_general_compliance repo owner,
                 check_documentation repo,
                 check_code_quality repo,
                 check_security repo,
                 check_cicd repo,
                 check_testing repo,
                 check_performance repo,
                 check_logging repo,
                 check_community (now w) repo,
                 check_legal repo
               ])"
  let ?run = "try_except_as ?body (\<lambda>e. stmt (set_error (repo_error_message e)))"
  note cats = general_sites [of P, OF add] documentation_sites [of P, OF add]
    code_quality_sites [of P, OF add] security_sites [of P, OF add] cicd_sites [of P, OF add]
    testing_sites [of P, OF add] performance_sites [of P, OF add] logging_sites [of P, OF add]
    community_sites [of P, OF add] legal_sites [of P, OF add]
  have body: "preserves P ?body"
    by (intro preserves_call preserves_seq_cons preserves_seq_nil cats)
  have handler: "preserves P (stmt (set_error (repo_error_message e)))" for e
    by (rule preserves_stmt) (rule err)
  have run: "preserves P ?run"
    using body handler by (rule preserves_try_as)
  obtain r s1 where eq: "?run st = (r, s1)" by (cases "?run st")
  from run P eq have "P s1" by (rule preservesD)
  moreover have "check_github_repo w owner repo_name st = s1"
    unfolding check_github_repo_def using eq by simp
  ultimately show ?thesis by simp
qed

lemma website_sites:
  assumes add: "\<And>cat n p pts d f st. site cat n p pts f \<Longrightarrow> P st \<Longrightarrow> P (add_check cat n p pts d f st)"
    and err: "\<And>m st. P st \<Longrightarrow> P (set_error m st)"
    and nt: "\<And>m st. P st \<Longrightarrow> P (set_note m st)"
    and P: "P st"
  shows "P (check_website_compliance w page_url st)"
proof -
  have "preserves P (try_except_as
            (call (requests_get w page_url) (\<lambda>response_text.
               call (soup_get_text w response_text) (\<lambda>plain.
                 seq [
                      stmt (add_check ''Website Compliance'' ''Mentions OWASP'' (contains ''owasp'' (lower plain)) 5 [] []),
                      stmt (add_check ''Website Compliance'' ''Security-focused content''
                         (any_in [''security'', ''vulnerability'', ''privacy''] (lower plain)) 5 [] []),
                      stmt (set_note ''Limited compliance checks for non-GitHub URLs. Consider providing a GitHub repository URL for comprehensive analysis.'')
                    ])))
            (\<lambda>e. stmt (set_error (''Failed to fetch website: '' @ exn_str e))))"
    (is "preserves P ?run")
  proof (rule preserves_try_as)
    show "preserves P (stmt (set_error (''Failed to fetch website: '' @ exn_str e)))" for e
      by (rule preserves_stmt) (rule err)
    have a1: "P (add_check ''Website Compliance'' n p 5 [] [] s)"
      if "n \<noteq> ''No hardcoded credentials or secrets''" "P s" for n p s
      by (rule add [OF _ that(2)]) (simp add: site_def plain_categories_def that(1))
    show "preserves P (call (requests_get w page_url) (\<lambda>response_text.
               call (soup_get_text w response_text) (\<lambda>plain.
                 seq [
                      stmt (add_check ''Website Compliance'' ''Mentions OWASP'' (contains ''owasp'' (lower plain)) 5 [] []),
                      stmt (add_check ''Website Compliance'' ''Security-focused content''
                         (any_in [''security'', ''vulnerability'', ''privacy''] (lower plain)) 5 [] []),
                      stmt (set_note ''Limited compliance checks for non-GitHub URLs. Consider providing a GitHub repository URL for comprehensive analysis.'')
                    ])))"
      by (intro preserves_call preserves_seq_cons preserves_seq_nil preserves_stmt a1 nt) simp_all
  qed
  obtain r s1 where eq: "?run st = (r, s1)" by (cases "?run st")
  from \<open>preserves P ?run\<close> P eq have "P s1" by (rule preservesD)
  moreover have "check_website_compliance w page_url st = s1"
    unfolding check_website_compliance_def Let_def using eq by simp
  ultimately show ?thesis by simp
qed

lemma run_checks_sites:
  assumes add: "\<And>cat n p pts d f st. site cat n p pts f \<Longrightarrow> P st \<Longrightarrow> P (add_check cat n p pts d f st)"
    and err: "\<And>m st. P st \<Longrightarrow> P (set_error m st)"
    and nt: "\<And>m st. P st \<Longrightarrow> P (set_note m st)"
    and P: "P st"
  shows "P (run_checks w repo_url parsed st)"
proof -
  have "P (check_github_repo w a b st)" for a b
    using add err P by (rule github_repo_sites)
  moreover have "P (check_website_compliance w repo_url st)"
    using add err nt P by (rule website_sites)
  ultimately show ?thesis
    unfolding run_checks_def Let_def using P by simp
qed

lemma check_compliance_report:
  assumes "check_compliance w repo_url st = (Inr r, st')"
  obtains parsed where "urlparse w repo_url = Inr parsed"
    and "self_max_score st' \<noteq> 0"
    and "r = results st'"
    and "st' = (let s = run_checks w repo_url parsed (new_results repo_url st)
                in s\<lparr>results := (results s)\<lparr>score := current_score s,
                       percentage := percentage_of (current_score s) (self_max_score s)\<rparr>\<rparr>)"
  using assms
  by (auto simp: check_compliance_def finalize_def Let_def split: sum.splits if_splits)

lemma report_property:
  assumes run: "check_compliance w repo_url st = (Inr r, st')"
    and add: "\<And>cat n p pts d f cs. site cat n p pts f \<Longrightarrow> Q (categories (results (cs::checker))) \<Longrightarrow>
                 Q (categories (results (add_check cat n p pts d f cs)))"
    and empty: "Q []"
  shows "Q (categories r)"
proof -
  from run obtain parsed where r: "r = results st'"
    and st': "st' = (let s = run_checks w repo_url parsed (new_results repo_url st)
                in s\<lparr>results := (results s)\<lparr>score := current_score s,
                       percentage := percentage_of (current_score s) (self_max_score s)\<rparr>\<rparr>)"
    by (rule check_compliance_report)
  let ?P = "\<lambda>s. Q (categories (results s))"
  have "?P (run_checks w repo_url parsed (new_results repo_url st))"
  proof (rule run_checks_sites [of ?P])
    show "?P (new_results repo_url st)" by (simp add: new_results_def empty)
  qed (simp_all add: add set_error_def set_note_def)
  then show ?thesis by (simp add: r st' Let_def)
qed

lemma report_checks_property:
  assumes run: "check_compliance w repo_url st = (Inr r, st')"
    and add: "\<And>cat n p pts d f. site cat n p pts f \<Longrightarrow> R (cat, made_check n p pts d f)"
  shows "list_all R (all_checks r)"
proof -
  have "list_all R (checks_of (categories r))"
  proof (rule report_property [OF run, of "\<lambda>cs. list_all R (checks_of cs)"])
    show "list_all R (checks_of [])" by (simp add: checks_of_simps)
  next
    fix cat n p pts d f and cs :: checker
    assume site: "site cat n p pts f" and old: "list_all R (checks_of (categories (results cs)))"
    from site have "R (cat, made_check n p pts d f)" by (rule add)
    with old show "list_all R (checks_of (categories (results (add_check cat n p pts d f cs))))"
      using set_all_checks_add_check [of cat n p pts d f cs]
      by (simp add: list_all_iff all_checks_def)
  qed
  then show ?thesis by (simp add: all_checks_def)
qed

lemma site_nonneg: "site cat n p pts f \<Longrightarrow> 0 \<le> pts"
  by (auto simp: site_def)

lemma categories_invariant_report:
  assumes "check_compliance w repo_url st = (Inr r, st')"
  shows "categories_invariant r"
proof -
  have "list_all (\<lambda>(n, c). category_invariant c) (categories r)"
  proof (rule report_property [OF assms])
    fix cat n p pts d f and cs :: checker
    assume "site cat n p pts f"
      and "list_all (\<lambda>(n, c). category_invariant c) (categories (results cs))"
    then show "list_all (\<lambda>(n, c). category_invariant c) (categories (results (add_check cat n p pts d f cs)))"
      using categories_invariant_add_check [of cs pts cat n p d f] site_nonneg [of cat n p pts f]
      by (simp add: categories_invariant_def)
  qed simp
  then show ?thesis by (simp add: categories_invariant_def)
qed

lemma check_rule_report:
  assumes "check_compliance w repo_url st = (Inr r, st')"
  shows "list_all check_rule (all_checks r)"
  using assms
proof (rule report_checks_property)
  fix cat n p pts d f
  assume "site cat n p pts f"
  then show "check_rule (cat, made_check n p pts d f)"
    by (auto simp: site_def check_rule_def made_check_def remediated_categories_def
        plain_categories_def)
qed

lemma secrets_rule_report:
  assumes "check_compliance w repo_url st = (Inr r, st')"
  shows "list_all secrets_rule (all_checks r)"
  using assms
proof (rule report_checks_property)
  fix cat n p pts d f
  assume "site cat n p pts f"
  then show "secrets_rule (cat, made_check n p pts d f)"
    by (auto simp: site_def secrets_rule_def made_check_def)
qed

section \<open>The claims\<close>

lemmas engine_defs =
  check_compliance_def new_results_def run_checks_def finalize_def is_github_netloc_def
  path_parts_of_def check_website_compliance_def check_github_repo_def
  try_except_as_def try_except_def call_def stmt_def set_note_def set_error_def Let_def
  any_in_def percentage_of_def round2_def init_def lower_def lower_char_def
  ascii_uppercase_def ascii_lowercase_def strip_def

lemma owasp_page_run:
  "fst (check_compliance (website_world ''OWASP project'') ''https://example.org'' (init None)) =
     Inr (owasp_page_report 5)"
  by (simp add: engine_defs website_world_def add_check_def owasp_page_report_def)

text \<open>
  C1. In every report that \<open>check_compliance\<close> returns, every category satisfies the
  invariant: its score is the sum of the weights of its passed checks, its maximum is the
  sum of the weights of all its checks, and so the score is at most the maximum. Every
  call of \<open>add_check\<close> preserves the two sums, and preserves the whole invariant when the
  weight is not negative, as it is at every call site (1 or 5).
\<close>

theorem category_invariant_holds:
  "(\<forall>w repo_url st r st'.
      check_compliance w repo_url st = (Inr r, st') \<longrightarrow> categories_invariant r) \<and>
   (\<forall>cat n p pts d f st.
      categories_sums (results st) \<longrightarrow>
      categories_sums (results (add_check cat n p pts d f st))) \<and>
   (\<forall>cat n p pts d f st.
      0 \<le> pts \<longrightarrow> categories_invariant (results st) \<longrightarrow>
      categories_invariant (results (add_check cat n p pts d f st)))"
  using categories_invariant_report categories_sums_add_check categories_invariant_add_check
  by blast

theorem category_invariant_holds_witness:
  "fst (check_compliance (website_world ''OWASP project'') ''https://example.org'' (init None)) =
     Inr (owasp_page_report 5) \<and>
   categories_invariant (owasp_page_report 5) \<and>
   categories_invariant (results (add_check ''Website Compliance'' ''Mentions OWASP'' True 5 [] []
     (new_results ''https://example.org'' (init None))))"
proof -
  obtain st' where run:
    "check_compliance (website_world ''OWASP project'') ''https://example.org'' (init None) =
       (Inr (owasp_page_report 5), st')"
    using owasp_page_run
    by (cases "check_compliance (website_world ''OWASP project'') ''https://example.org'' (init None)")
       simp
  have start: "categories_invariant (results (new_results ''https://example.org'' (init None)))"
    by (simp add: categories_invariant_def new_results_def)
  have five: "(0::int) \<le> 5" by simp
  from category_invariant_holds run start five show ?thesis
    using owasp_page_run by blast
qed

text \<open>
  C2, as the code has it. In every report, a passed check has its full weight as points
  and an empty remediation; a failed check has 0 points, and its remediation is non-empty
  exactly when its category is one of the five whose call sites pass a remediation text
  (general, documentation, code quality, security, CI/CD). The checks of the other
  categories and of the website path are added without one, so a failed check there has
  an empty remediation.
\<close>

theorem check_records_consistent:
  "check_compliance w repo_url st = (Inr r, st') \<Longrightarrow> list_all check_rule (all_checks r)"
  by (rule check_rule_report)

theorem check_records_consistent_witness:
  "fst (check_compliance (website_world ''OWASP project'') ''https://example.org'' (init None)) =
     Inr (owasp_page_report 5) \<and>
   list_all check_rule (all_checks (owasp_page_report 5))"
proof -
  obtain st' where run:
    "check_compliance (website_world ''OWASP project'') ''https://example.org'' (init None) =
       (Inr (owasp_page_report 5), st')"
    using owasp_page_run
    by (cases "check_compliance (website_world ''OWASP project'') ''https://example.org'' (init None)")
       simp
  from check_records_consistent [OF run] owasp_page_run show ?thesis by simp
qed

text \<open>
  C2 as stated fails: the report of the page \<open>OWASP project\<close> holds the check
  \<open>Security-focused content\<close>, which failed and has an empty remediation.
\<close>

theorem failed_check_without_remediation:
  "fst (check_compliance (website_world ''OWASP project'') ''https://example.org'' (init None)) =
     Inr (owasp_page_report 5) \<and>
   (''Website Compliance'',
     \<lparr>name = ''Security-focused content'', passed = False, points = 0, max_points = 5,
      details = [], how_to_fix = []\<rparr>) \<in> set (all_checks (owasp_page_report 5))"
  using owasp_page_run
  by (simp add: all_checks_def checks_of_def owasp_page_report_def)

end
